theory Spec2Isabelle
  imports Main "HOL-Library.Char_ord" "HOL-Library.List_Lexorder" "HOL-Library.Sublist"
begin

section \<open>Exceptions, events and the task monad\<close>

text \<open>
  Both tasks talk to collaborators that are not part of the sources: the Salesforce REST
  client, the metadata deploy API, the logger and the file system. The collaborators are
  parameters of the model. Everything a task does to them is recorded, in order, in a list
  of events, and the state of the remote platform is threaded through as a value of an
  arbitrary type \<open>'w\<close>. A Python exception is the \<open>Inl\<close> branch of the result.
\<close>

text \<open>One entry of \<open>SalesforceMalformedRequest.content\<close>: a dictionary.\<close>

type_synonym sf_error = "(string \<times> string) list"

datatype exn =
    SalesforceMalformedRequest "sf_error list"
  | CumulusCIException "string option"
    \<comment> \<open>the constructor argument; \<open>None\<close> is Python's \<open>None\<close>\<close>
  | AttributeError string
  | IndexError
  | KeyError string
  | OtherError string
    \<comment> \<open>any other exception a collaborator raises\<close>

record content_version =
  PathOnClient :: string
  Title :: string
  VersionData :: string

datatype event =
    LogInfo string
  | LogWarning string
  | LogError string
  | DeployBundle string
    \<comment> \<open>\<open>_deploy_bundle(path)\<close>\<close>
  | Describe
    \<comment> \<open>\<open>sf.User.describe()\<close>\<close>
  | QueryAll string
    \<comment> \<open>\<open>sf.query_all(soql)\<close>\<close>
  | Query string
    \<comment> \<open>\<open>sf.query(soql)\<close>\<close>
  | Restful string "string option" string
    \<comment> \<open>\<open>sf.restful(path, data=..., method=...)\<close>\<close>
  | Create content_version
    \<comment> \<open>\<open>sf.ContentVersion.create(fields)\<close>\<close>
  | Delete string
    \<comment> \<open>\<open>sf.ContentDocument.delete(id)\<close>\<close>

type_synonym ('w, 'a) op = "'w \<Rightarrow> (exn + 'a) \<times> 'w"

type_synonym ('w, 'a) task = "'w \<times> event list \<Rightarrow> (exn + 'a) \<times> 'w \<times> event list"

definition ret :: "'a \<Rightarrow> ('w, 'a) task" where
  "ret x = (\<lambda>s. (Inr x, s))"

definition raise :: "exn \<Rightarrow> ('w, 'a) task" where
  "raise e = (\<lambda>s. (Inl e, s))"

definition bnd :: "('w, 'a) task \<Rightarrow> ('a \<Rightarrow> ('w, 'b) task) \<Rightarrow> ('w, 'b) task" where
  "bnd m f = (\<lambda>s. case m s of (Inl e, s') \<Rightarrow> (Inl e, s') | (Inr x, s') \<Rightarrow> f x s')"

definition log :: "event \<Rightarrow> ('w, unit) task" where
  "log ev = (\<lambda>(w, t). (Inr (), (w, t @ [ev])))"

text \<open>A call of a collaborator: the call is recorded, then the collaborator answers.\<close>

definition call :: "event \<Rightarrow> ('w, 'a) op \<Rightarrow> ('w, 'a) task" where
  "call ev f = (\<lambda>(w, t). case f w of (r, w') \<Rightarrow> (r, (w', t @ [ev])))"

text \<open>\<open>try: m  except SalesforceMalformedRequest as e: h e\<close>\<close>

definition except_malformed ::
  "('w, 'a) task \<Rightarrow> (sf_error list \<Rightarrow> ('w, 'a) task) \<Rightarrow> ('w, 'a) task" where
  "except_malformed m h =
     (\<lambda>s. case m s of
             (Inl (SalesforceMalformedRequest c), s') \<Rightarrow> h c s'
           | r \<Rightarrow> r)"

section \<open>Strings and paths\<close>

definition digit :: "nat \<Rightarrow> char" where
  "digit d = char_of (48 + d)"

fun str_nat :: "nat \<Rightarrow> string" where
  "str_nat n = (if n < 10 then [digit n] else str_nat (n div 10) @ [digit (n mod 10)])"

declare str_nat.simps [simp del]

text \<open>\<open>sep.join(xs)\<close>\<close>

fun join :: "string \<Rightarrow> string list \<Rightarrow> string" where
  "join sep [] = []"
| "join sep [x] = x"
| "join sep (x # y # ys) = x @ sep @ join sep (y # ys)"

text \<open>\<open>posixpath.join(a, b)\<close>\<close>

definition os_path_join :: "string \<Rightarrow> string \<Rightarrow> string" where
  "os_path_join a b =
     (if take 1 b = ''/'' then b
      else if a = [] \<or> last a = CHR ''/'' then a @ b
      else a @ ''/'' @ b)"

text \<open>\<open>posixpath.basename(p)\<close>: what follows the last slash.\<close>

definition os_path_basename :: "string \<Rightarrow> string" where
  "os_path_basename p = rev (takeWhile (\<lambda>c. c \<noteq> CHR ''/'') (rev p))"

section \<open>DeployBundles\<close>

record filesystem =
  getcwd :: string
  isdir :: "string \<Rightarrow> bool"
  listdir :: "string \<Rightarrow> exn + string list"

record deploy_options =
  opt_path :: string

text \<open>The loop of \<open>DeployBundles._run_task\<close> over the sorted listing.\<close>

primrec deploy_items ::
  "filesystem \<Rightarrow> (string \<Rightarrow> ('w, unit) op) \<Rightarrow> deploy_options \<Rightarrow> string \<Rightarrow> string list
     \<Rightarrow> ('w, unit) task" where
  "deploy_items fs deploy_bundle opts p [] = ret ()"
| "deploy_items fs deploy_bundle opts p (item # items) =
     (let item_path = os_path_join p item in
      if \<not> isdir fs item_path then deploy_items fs deploy_bundle opts p items
      else
        bnd (log (LogInfo (''Deploying bundle: '' @ opt_path opts @ ''/'' @ item))) (\<lambda>_.
        bnd (call (DeployBundle item_path) (deploy_bundle item_path)) (\<lambda>_.
        deploy_items fs deploy_bundle opts p items)))"

definition DeployBundles_run_task ::
  "filesystem \<Rightarrow> (string \<Rightarrow> ('w, unit) op) \<Rightarrow> deploy_options \<Rightarrow> ('w, unit) task" where
  "DeployBundles_run_task fs deploy_bundle opts =
     (let p = opt_path opts;
          pwd = getcwd fs;
          p = os_path_join pwd p
      in
        bnd (log (LogInfo (''Deploying all metadata bundles in path '' @ p))) (\<lambda>_.
        if \<not> isdir fs p then
          bnd (log (LogWarning (''Path '' @ p @ '' not found, skipping''))) (\<lambda>_. ret ())
        else
          case listdir fs p of
            Inl e \<Rightarrow> raise e
          | Inr items \<Rightarrow> deploy_items fs deploy_bundle opts p (sort items)))"

text \<open>
  \<open>freeze\<close>: the project configuration and the parent step are inputs. The JSON encoding
  of a Python string (\<open>json.dumps(s)\<close>, quotes included) is the parameter \<open>json_str\<close>.
\<close>

record project_config =
  repo_owner :: string
  repo_name :: string
  repo_commit :: string

record parent_step =
  parent_path :: string
  parent_step_num :: string

record frozen_step =
  s_name :: string
  s_path :: string
  s_step_num :: string
  s_kind :: string
  s_is_required :: bool
  s_task_class :: string
  s_task_config :: string

text \<open>\<open>json.dumps(task_config)\<close> for the dictionary literal built in the loop of \<open>freeze\<close>.\<close>

definition dumps_task_config :: "(string \<Rightarrow> string) \<Rightarrow> project_config \<Rightarrow> string \<Rightarrow> string" where
  \<open>dumps_task_config json_str pc subfolder =
     ''{"options": {"dependencies": [{"repo_owner": '' @ json_str (repo_owner pc)
       @ '', "repo_name": '' @ json_str (repo_name pc)
       @ '', "tag": '' @ json_str (repo_commit pc)
       @ '', "subfolder": '' @ json_str subfolder @ ''}]}}''\<close>

text \<open>The body of the loop of \<open>freeze\<close>, for the pair \<open>(i, item)\<close> of \<open>enumerate\<close>.\<close>

definition freeze_step ::
  "(string \<Rightarrow> string) \<Rightarrow> project_config \<Rightarrow> string \<Rightarrow> parent_step \<Rightarrow> nat \<times> string \<Rightarrow> frozen_step" where
  "freeze_step json_str pc p step = (\<lambda>(i, item).
     (let name = os_path_basename item in
      \<lparr> s_name = ''Deploy '' @ p @ ''/'' @ name,
        s_path = parent_path step @ ''.'' @ name,
        s_step_num = parent_step_num step @ ''.'' @ str_nat i,
        s_kind = ''metadata'',
        s_is_required = True,
        s_task_class = ''cumulusci.tasks.salesforce.UpdateDependencies'',
        s_task_config = dumps_task_config json_str pc (join ''/'' [p, item]) \<rparr>))"

definition freeze ::
  "(string \<Rightarrow> string) \<Rightarrow> filesystem \<Rightarrow> project_config \<Rightarrow> deploy_options \<Rightarrow> parent_step
     \<Rightarrow> ('w, frozen_step list) task" where
  "freeze json_str fs pc opts step =
     (let p = opt_path opts in
      case listdir fs p of
        Inl e \<Rightarrow> raise e
      | Inr items \<Rightarrow> ret (map (freeze_step json_str pc p step) (enumerate 1 (sort items))))"

section \<open>UploadProfilePhoto\<close>

subsection \<open>The platform client and the local environment\<close>

text \<open>One entry of \<open>sf.User.describe()["fields"]\<close>, with the keys the task reads.\<close>

record field =
  f_name :: string
  filterable :: bool
  soapType :: string

record user_row =
  user_Id :: string

record content_version_row =
  ContentDocumentId :: string

text \<open>
  The answer of \<open>ContentVersion.create\<close>; \<open>errors\<close> is the list as \<open>format\<close> prints it.
\<close>

record create_result =
  success :: bool
  result_id :: string
  errors :: string

record 'w salesforce =
  User_describe :: "('w, field list) op"
  sf_query_all :: "string \<Rightarrow> ('w, user_row list) op"
  sf_query :: "string \<Rightarrow> ('w, content_version_row list) op"
  sf_restful :: "string \<Rightarrow> string option \<Rightarrow> string \<Rightarrow> ('w, (string \<times> string) list) op"
  ContentVersion_create :: "content_version \<Rightarrow> ('w, create_result) op"
  ContentDocument_delete :: "string \<Rightarrow> ('w, unit) op"

text \<open>
  What the task reads from the local machine: \<open>pathlib\<close> on the photo path, the encoded
  bytes of the file (\<open>base64.b64encode(path.read_bytes()).decode("utf-8")\<close>, which fails
  when the file cannot be read) and \<open>json.dumps\<close> of a string.
\<close>

record local_env =
  path_exists :: "string \<Rightarrow> bool"
  path_str :: "string \<Rightarrow> string"
  path_name :: "string \<Rightarrow> string"
  path_stem :: "string \<Rightarrow> string"
  read_b64 :: "string \<Rightarrow> exn + string"
  json_dumps_str :: "string \<Rightarrow> string"

record photo_options =
  opt_photo :: string
  opt_where :: "string option"

subsection \<open>Error messages\<close>

text \<open>
  \<open>join_errors\<close> builds the joined string as an expression statement and has no
  \<open>return\<close>: the function returns \<open>None\<close>.
\<close>

definition error_messages :: "sf_error list \<Rightarrow> string list" where
  "error_messages content =
     map (\<lambda>error. case map_of error ''message'' of None \<Rightarrow> ''Unknown error.'' | Some m \<Rightarrow> m)
       content"

definition join_errors :: "sf_error list \<Rightarrow> string option" where
  "join_errors content = (let discarded = join ''; '' (error_messages content) in None)"

definition raise_cumulusci_exception :: "sf_error list \<Rightarrow> ('w, 'a) task" where
  "raise_cumulusci_exception content = raise (CumulusCIException (join_errors content))"

subsection \<open>The query built from filters\<close>

definition get_user_fields :: "'w salesforce \<Rightarrow> ('w, string \<rightharpoonup> field) task" where
  "get_user_fields sf =
     bnd (call Describe (User_describe sf)) (\<lambda>fields.
     ret (foldl (\<lambda>user_fields fld. user_fields(f_name fld \<mapsto> fld)) Map.empty fields))"

definition string_soap_types :: "string list" where
  "string_soap_types = [''xsd:string'', ''tns:ID'', ''urn:address'']"

text \<open>
  The loop of \<open>_get_query\<close>. A filter is a pair of the field name and the value as
  the f-string prints it; the filters come in the order of the dictionary.
\<close>

primrec get_query_filters ::
  "(string \<rightharpoonup> field) \<Rightarrow> (string \<times> string) list \<Rightarrow> string list \<Rightarrow> exn + string list" where
  \<open>get_query_filters user_fields [] query_filters = Inr query_filters\<close>
| \<open>get_query_filters user_fields (nv # filters) query_filters =
     (case nv of (name, v) \<Rightarrow>
        (case user_fields name of
           None \<Rightarrow>
             Inl (CumulusCIException (Some (''User Field "'' @ name
               @ ''" referenced in "filters" option is not found.  Fields are case-sensitive.'')))
         | Some fld \<Rightarrow>
             if \<not> filterable fld then
               Inl (CumulusCIException (Some (''User Field "'' @ name
                 @ ''" referenced in "filters" option must be filterable.'')))
             else if soapType fld \<in> set string_soap_types then
               get_query_filters user_fields filters
                 (query_filters @ [name @ '' = '' @ [CHR 0x27] @ v @ [CHR 0x27]])
             else
               get_query_filters user_fields filters (query_filters @ [name @ '' = '' @ v])))\<close>

definition get_query :: "'w salesforce \<Rightarrow> (string \<times> string) list \<Rightarrow> ('w, string) task" where
  "get_query sf filters =
     bnd (get_user_fields sf) (\<lambda>user_fields.
     case get_query_filters user_fields filters [] of
       Inl e \<Rightarrow> raise e
     | Inr query_filters \<Rightarrow>
         ret (''SELECT Id FROM User WHERE '' @ join '' AND '' query_filters))"

subsection \<open>The regular expression of the where clause\<close>

text \<open>
  \<open>re.sub(r"^WHERE ?", "", where, flags=re.I)\<close>. The pattern is a sequence of literal
  characters and optional characters, matched at the start of the string only (the
  anchor, without \<open>re.MULTILINE\<close>), greedily and ignoring the case of ASCII letters.
  \<open>re_match\<close> returns what follows the match.
\<close>

datatype re_item = Lit char | Opt char

definition lower :: "char \<Rightarrow> char" where
  "lower c = (if CHR ''A'' \<le> c \<and> c \<le> CHR ''Z'' then char_of (of_char c + (32::nat)) else c)"

fun re_match :: "re_item list \<Rightarrow> string \<Rightarrow> string option" where
  "re_match [] s = Some s"
| "re_match (Lit c # items) [] = None"
| "re_match (Lit c # items) (d # s) = (if lower c = lower d then re_match items s else None)"
| "re_match (Opt c # items) [] = re_match items []"
| "re_match (Opt c # items) (d # s) =
     (if lower c = lower d then
        (case re_match items s of Some r \<Rightarrow> Some r | None \<Rightarrow> re_match items (d # s))
      else re_match items (d # s))"

definition where_pattern :: "re_item list" where
  "where_pattern =
     [Lit CHR ''W'', Lit CHR ''H'', Lit CHR ''E'', Lit CHR ''R'', Lit CHR ''E'', Opt CHR '' '']"

definition re_sub_where :: "string \<Rightarrow> string" where
  "re_sub_where w = (case re_match where_pattern w of Some rest \<Rightarrow> rest | None \<Rightarrow> w)"

subsection \<open>User resolution\<close>

definition get_user_id_by_query :: "'w salesforce \<Rightarrow> string \<Rightarrow> ('w, string) task" where
  "get_user_id_by_query sf w =
     (let query = ''SELECT Id FROM User WHERE '' @ re_sub_where w in
      bnd (log (LogInfo (''Querying User: '' @ query))) (\<lambda>_.
      bnd (except_malformed
             (bnd (call (QueryAll query) (sf_query_all sf query)) (\<lambda>records.
              ret (map user_Id records)))
             (\<lambda>e. raise_cumulusci_exception e)) (\<lambda>user_ids.
      if length user_ids < 1 then raise (CumulusCIException (Some ''No Users found.''))
      else if 1 < length user_ids then
        raise (CumulusCIException (Some (''More than one User found (''
          @ str_nat (length user_ids) @ ''): '' @ join '', '' user_ids)))
      else
        bnd (log (LogInfo (''Uploading profile photo for the User with ID '' @ user_ids ! 0)))
          (\<lambda>_. ret (user_ids ! 0)))))"

text \<open>\<open>get_default_user_id\<close>: \<open>s[-18:]\<close> is the last 18 characters, or all of a shorter \<open>s\<close>.\<close>

definition get_default_user_id :: "'w salesforce \<Rightarrow> ('w, string) task" where
  "get_default_user_id sf =
     bnd (call (Restful [] None ''GET'') (sf_restful sf [] None ''GET'')) (\<lambda>response.
     case map_of response ''identity'' of
       None \<Rightarrow> raise (KeyError ''identity'')
     | Some identity \<Rightarrow>
         (let user_id = drop (length identity - 18) identity in
          bnd (log (LogInfo (''Uploading profile photo for the default User with ID '' @ user_id)))
            (\<lambda>_. ret user_id)))"

subsection \<open>Upload and link\<close>

definition insert_content_document ::
  "local_env \<Rightarrow> 'w salesforce \<Rightarrow> photo_options \<Rightarrow> ('w, string) task" where
  "insert_content_document env sf opts =
     (let p = opt_photo opts in
      if \<not> path_exists env p then
        raise (CumulusCIException (Some (''No photo found at path: '' @ path_str env p)))
      else
        bnd (log (LogInfo (''Setting user photo to '' @ path_str env p))) (\<lambda>_.
        case read_b64 env p of
          Inl e \<Rightarrow> raise e
        | Inr data \<Rightarrow>
            (let fields = \<lparr> PathOnClient = path_name env p, Title = path_stem env p,
                             VersionData = data \<rparr> in
             bnd (call (Create fields) (ContentVersion_create sf fields)) (\<lambda>result.
             if \<not> success result then
               raise (CumulusCIException (Some (''Failed to create photo ContentVersion: ''
                 @ errors result)))
             else
               (let content_version_id = result_id result;
                    soql = ''SELECT Id, ContentDocumentId FROM ContentVersion WHERE Id = ''
                      @ [CHR 0x27] @ content_version_id @ [CHR 0x27]
                in
                  bnd (call (Query soql) (sf_query sf soql)) (\<lambda>records.
                  case records of
                    [] \<Rightarrow> raise IndexError
                  | r # _ \<Rightarrow>
                      (let content_document_id = ContentDocumentId r in
                       bnd (log (LogInfo (''Uploaded profile photo ContentDocument ''
                              @ content_document_id))) (\<lambda>_.
                       ret content_document_id))))))))"

definition delete_content_document :: "'w salesforce \<Rightarrow> string \<Rightarrow> ('w, unit) task" where
  "delete_content_document sf content_document_id =
     call (Delete content_document_id) (ContentDocument_delete sf content_document_id)"

text \<open>
  \<open>_run_task\<close> from the line that calls \<open>_insert_content_document\<close> on: the upload of the
  photo for a user identifier that is already resolved.
\<close>

definition upload_photo ::
  "local_env \<Rightarrow> 'w salesforce \<Rightarrow> photo_options \<Rightarrow> string \<Rightarrow> ('w, unit) task" where
  \<open>upload_photo env sf opts user_id =
     bnd (insert_content_document env sf opts) (\<lambda>content_document_id.
     (let url = ''connect/user-profiles/'' @ user_id @ ''/photo'';
          data = ''{"fileId": '' @ json_dumps_str env content_document_id @ ''}''
      in
        except_malformed
          (bnd (call (Restful url (Some data) ''POST'') (sf_restful sf url (Some data) ''POST''))
             (\<lambda>_. ret ()))
          (\<lambda>e.
             bnd (log (LogError
               ''An error occured setting the ContentDocument as the users's profile photo.''))
               (\<lambda>_.
             bnd (log (LogError (''Deleting ContentDocument '' @ content_document_id))) (\<lambda>_.
             bnd (delete_content_document sf content_document_id) (\<lambda>_.
             raise_cumulusci_exception e))))))\<close>

text \<open>
  Modelled from the spec: the base class \<open>BaseSalesforceApiTask\<close> is not among the
  sources. \<open>_run_task\<close> calls \<open>self._get_default_user_id()\<close>, while the class defines
  \<open>get_default_user_id\<close>; the specification records that the run path calls a method
  named differently from the one the class defines, so the attribute lookup finds nothing
  and raises.
\<close>

definition underscore_get_default_user_id :: "('w, string) task" where
  "underscore_get_default_user_id =
     raise (AttributeError
       ''UploadProfilePhoto object has no attribute _get_default_user_id'')"

definition UploadProfilePhoto_run_task ::
  "local_env \<Rightarrow> 'w salesforce \<Rightarrow> photo_options \<Rightarrow> ('w, unit) task" where
  "UploadProfilePhoto_run_task env sf opts =
     bnd (case opt_where opts of
            None \<Rightarrow> underscore_get_default_user_id
          | Some w \<Rightarrow>
              if w \<noteq> [] then get_user_id_by_query sf w else underscore_get_default_user_id)
       (upload_photo env sf opts)"

section \<open>Observations and sample inputs\<close>

text \<open>The bundle paths handed to the deploy operation, in the order of the calls.\<close>

fun deployed :: "event list \<Rightarrow> string list" where
  "deployed [] = []"
| "deployed (DeployBundle p # es) = p # deployed es"
| "deployed (e # es) = deployed es"

text \<open>
  A small project: the bundle root \<open>unpackaged\<close> holds one bundle directory and one
  plain file. The deploy operation records the deployed path in the platform state.
\<close>

definition sample_fs :: filesystem where
  "sample_fs =
     \<lparr> getcwd = ''/repo'',
       isdir = (\<lambda>p. p = ''/repo/unpackaged'' \<or> p = ''/repo/unpackaged/pre''),
       listdir = (\<lambda>p. if p = ''unpackaged'' \<or> p = ''/repo/unpackaged''
                        then Inr [''pre'', ''README.md'']
                        else Inl (OtherError ''FileNotFoundError'')) \<rparr>"

definition deploy_ok :: "string \<Rightarrow> (string list, unit) op" where
  "deploy_ok p = (\<lambda>w. (Inr (), w @ [p]))"

definition sample_json_str :: "string \<Rightarrow> string" where
  \<open>sample_json_str s = ''"'' @ s @ ''"''\<close>

definition sample_project :: project_config where
  "sample_project = \<lparr> repo_owner = ''SFDO'', repo_name = ''Demo'', repo_commit = ''abc123'' \<rparr>"

definition sample_parent :: parent_step where
  "sample_parent = \<lparr> parent_path = ''deploy_pre'', parent_step_num = ''1'' \<rparr>"

text \<open>The events that are not log lines: the calls that reach a collaborator.\<close>

fun is_log :: "event \<Rightarrow> bool" where
  "is_log (LogInfo m) = True"
| "is_log (LogWarning m) = True"
| "is_log (LogError m) = True"
| "is_log e = False"

definition platform_calls :: "event list \<Rightarrow> event list" where
  "platform_calls t = filter (\<lambda>e. \<not> is_log e) t"

text \<open>
  The where clause as the specification words it: one leading \<open>WHERE\<close>, in any case,
  and one space after it if there is one, are removed.
\<close>

definition strip_leading_where :: "string \<Rightarrow> string" where
  "strip_leading_where w =
     (if map lower (take 5 w) = ''where'' then
        (let r = drop 5 w in if take 1 r = '' '' then drop 1 r else r)
      else w)"

text \<open>
  The schema as the specification words it: the field of a name is the entry of the
  description with exactly that name (the last one, should a name occur twice).
\<close>

definition lookup_field :: "field list \<Rightarrow> string \<Rightarrow> field option" where
  "lookup_field flds n = find (\<lambda>fld. f_name fld = n) (rev flds)"

text \<open>One filter as the specification words it: quoted for the string types only.\<close>

definition render_filter :: "field list \<Rightarrow> string \<times> string \<Rightarrow> string" where
  "render_filter flds = (\<lambda>(n, v).
     (case lookup_field flds n of
        None \<Rightarrow> []
      | Some fld \<Rightarrow>
          if soapType fld = ''xsd:string'' \<or> soapType fld = ''tns:ID''
             \<or> soapType fld = ''urn:address''
          then n @ '' = '' @ [CHR 0x27] @ v @ [CHR 0x27]
          else n @ '' = '' @ v))"

text \<open>
  A sample platform. Its state is the list of the content documents that exist. It knows
  three user fields, finds two users for any query, accepts the upload and rejects the
  photo link.
\<close>

definition sample_fields :: "field list" where
  "sample_fields =
     [\<lparr> f_name = ''Alias'', filterable = True, soapType = ''xsd:string'' \<rparr>,
      \<lparr> f_name = ''IsActive'', filterable = True, soapType = ''xsd:boolean'' \<rparr>,
      \<lparr> f_name = ''AboutMe'', filterable = False, soapType = ''xsd:string'' \<rparr>]"

definition sample_sf :: "string list salesforce" where
  "sample_sf =
     \<lparr> User_describe = (\<lambda>w. (Inr sample_fields, w)),
       sf_query_all = (\<lambda>q w. (Inr [\<lparr> user_Id = ''005A'' \<rparr>, \<lparr> user_Id = ''005B'' \<rparr>], w)),
       sf_query = (\<lambda>q w. (Inr [\<lparr> ContentDocumentId = ''069D'' \<rparr>], w)),
       sf_restful = (\<lambda>url data method w.
         (Inl (SalesforceMalformedRequest [ [(''message'', ''bad file'')] ]), w)),
       ContentVersion_create = (\<lambda>cv w.
         (Inr \<lparr> success = True, result_id = ''068V'', errors = ''[]'' \<rparr>, ''069D'' # w)),
       ContentDocument_delete = (\<lambda>i w. (Inr (), removeAll i w)) \<rparr>"

definition sample_env :: local_env where
  "sample_env =
     \<lparr> path_exists = (\<lambda>p. p = ''photo.png''),
       path_str = (\<lambda>p. p),
       path_name = (\<lambda>p. p),
       path_stem = (\<lambda>p. takeWhile (\<lambda>c. c \<noteq> CHR ''.'') p),
       read_b64 = (\<lambda>p. if p = ''photo.png'' then Inr ''iVBORw=='' else
                     Inl (OtherError ''FileNotFoundError'')),
       json_dumps_str = sample_json_str \<rparr>"

text \<open>A filter field is usable when the schema has it and it is filterable.\<close>

definition field_usable :: "field list \<Rightarrow> string \<Rightarrow> bool" where
  "field_usable flds n =
     (case lookup_field flds n of None \<Rightarrow> False | Some fld \<Rightarrow> filterable fld)"

section \<open>Properties\<close>

subsection \<open>Running a task on a state\<close>

lemma ret_apply: "ret x s = (Inr x, s)"
  by (simp add: ret_def)

lemma raise_apply: "raise e s = (Inl e, s)"
  by (simp add: raise_def)

lemma bnd_apply:
  "bnd m f s = (case m s of (Inl e, s') \<Rightarrow> (Inl e, s') | (Inr x, s') \<Rightarrow> f x s')"
  by (simp add: bnd_def)

lemma log_apply: "log ev (w, t) = (Inr (), w, t @ [ev])"
  by (simp add: log_def)

lemma call_apply: "call ev f (w, t) = (fst (f w), snd (f w), t @ [ev])"
  by (simp add: call_def split: prod.splits)

lemma except_malformed_apply:
  "except_malformed m h s =
     (case m s of (Inl (SalesforceMalformedRequest c), s') \<Rightarrow> h c s' | r \<Rightarrow> r)"
  by (simp add: except_malformed_def)

lemmas task_simps = ret_apply raise_apply bnd_apply log_apply call_apply Let_def

subsection \<open>DeployBundles: a missing bundle root\<close>

text \<open>
  Claim C8. When the resolved path is not an existing directory, \<open>_run_task\<close> logs the
  path, logs a warning and returns normally: the platform state is untouched and the
  only new events are the two log lines, so the deploy operation is never called.
\<close>

theorem deploy_all_skips_missing_path:
  assumes "\<not> isdir fs (os_path_join (getcwd fs) (opt_path opts))"
  shows "DeployBundles_run_task fs deploy_bundle opts (w, t) =
           (Inr (), w,
            t @ [LogInfo (''Deploying all metadata bundles in path ''
                   @ os_path_join (getcwd fs) (opt_path opts)),
                 LogWarning (''Path '' @ os_path_join (getcwd fs) (opt_path opts)
                   @ '' not found, skipping'')])"
  using assms by (simp add: DeployBundles_run_task_def task_simps)

theorem deploy_all_skips_missing_path_witness:
  "DeployBundles_run_task sample_fs deploy_ok \<lparr> opt_path = ''missing'' \<rparr> ([], []) =
     (Inr (), [],
      [LogInfo ''Deploying all metadata bundles in path /repo/missing'',
       LogWarning ''Path /repo/missing not found, skipping''])"
proof -
  have h: "\<not> isdir sample_fs
             (os_path_join (getcwd sample_fs) (opt_path \<lparr> opt_path = ''missing'' \<rparr>))"
    by (simp add: sample_fs_def os_path_join_def)
  show ?thesis
    using deploy_all_skips_missing_path [OF h, of deploy_ok "[]" "[]"]
    by (simp add: sample_fs_def os_path_join_def)
qed

subsection \<open>DeployBundles: freeze\<close>

lemma str_nat_small: "str_nat (Suc 0) = ''1''" "str_nat (Suc (Suc 0)) = ''2''"
  by code_simp+

lemma freeze_steps:
  assumes "listdir fs (opt_path opts) = Inr D"
  shows "freeze json_str fs pc opts step s =
           (Inr (map (freeze_step json_str pc (opt_path opts) step) (enumerate 1 (sort D))), s)"
  using assms by (simp add: freeze_def task_simps)

text \<open>
  Claim C9. For a fixed listing \<open>D\<close> of the bundle root, fixed project metadata and a
  fixed parent step, two calls of \<open>freeze\<close> (on any two file systems that list \<open>D\<close>, and
  in any two platform states) return the same steps; step \<open>k\<close> (from 0) belongs to the
  \<open>k\<close>-th entry of the sorted listing and its \<open>step_num\<close> is the parent's number, a dot
  and \<open>k + 1\<close>; the platform state and the event list are returned unchanged, so nothing
  is deployed.
\<close>

theorem freeze_deterministic:
  assumes "listdir fs (opt_path opts) = Inr D" and "listdir fs' (opt_path opts) = Inr D"
  shows "\<exists>steps.
           freeze json_str fs pc opts step (w, t) = (Inr steps, w, t)
         \<and> freeze json_str fs' pc opts step (w', t') = (Inr steps, w', t')
         \<and> length steps = length D
         \<and> (\<forall>k < length D.
              s_step_num (steps ! k) = parent_step_num step @ ''.'' @ str_nat (k + 1)
            \<and> s_name (steps ! k)
                = ''Deploy '' @ opt_path opts @ ''/'' @ os_path_basename (sort D ! k)
            \<and> s_task_config (steps ! k)
                = dumps_task_config json_str pc (opt_path opts @ ''/'' @ sort D ! k))"
  using assms
  by (simp add: freeze_steps nth_enumerate_eq freeze_step_def Let_def)

theorem freeze_deterministic_witness:
  "\<exists>steps.
     freeze sample_json_str sample_fs sample_project \<lparr> opt_path = ''unpackaged'' \<rparr> sample_parent
       ([]::string list, []) = (Inr steps, [], [])
   \<and> map s_step_num steps = [''1.1'', ''1.2'']
   \<and> map s_name steps = [''Deploy unpackaged/README.md'', ''Deploy unpackaged/pre'']"
proof -
  have h: "listdir sample_fs (opt_path \<lparr> opt_path = ''unpackaged'' \<rparr>)
             = Inr [''pre'', ''README.md'']"
    by (simp add: sample_fs_def)
  have s: "sort [''pre'', ''README.md''] = [''README.md'', ''pre'']"
    by simp
  note n = str_nat_small
  have b: "os_path_basename ''README.md'' = ''README.md''" "os_path_basename ''pre'' = ''pre''"
    by (simp_all add: os_path_basename_def)
  from freeze_deterministic [OF h h, of sample_json_str sample_project sample_parent
      "[]::string list" "[]" "[]::string list" "[]"]
  obtain steps where
    f: "freeze sample_json_str sample_fs sample_project \<lparr> opt_path = ''unpackaged'' \<rparr>
          sample_parent ([]::string list, []) = (Inr steps, [], [])"
    and l: "length steps = 2"
    and k: "\<forall>k < 2.
              s_step_num (steps ! k) = parent_step_num sample_parent @ ''.'' @ str_nat (k + 1)
            \<and> s_name (steps ! k)
                = ''Deploy '' @ ''unpackaged'' @ ''/''
                    @ os_path_basename (sort [''pre'', ''README.md''] ! k)"
    by auto
  from l obtain a b where ab: "steps = [a, b]"
    by (auto simp: length_Suc_conv numeral_2_eq_2)
  have "s_step_num (steps ! 0) = ''1.1''" "s_name (steps ! 0) = ''Deploy unpackaged/README.md''"
    using k [rule_format, of 0] n b s by (simp_all add: sample_parent_def)
  moreover
  have "s_step_num (steps ! 1) = ''1.2''" "s_name (steps ! 1) = ''Deploy unpackaged/pre''"
    using k [rule_format, of 1] n b s by (simp_all add: sample_parent_def)
  ultimately show ?thesis
    using f ab by simp
qed

subsection \<open>DeployBundles: the bundles deployed and the steps frozen\<close>

lemma deployed_append: "deployed (xs @ ys) = deployed xs @ deployed ys"
  by (induction xs rule: deployed.induct) simp_all

lemma deploy_items_deployed:
  assumes ok: "\<And>q w. fst (deploy_bundle q w) = Inr ()"
  shows "fst (deploy_items fs deploy_bundle opts p items (w, t)) = Inr ()
       \<and> deployed (snd (snd (deploy_items fs deploy_bundle opts p items (w, t)))) =
           deployed t
             @ map (os_path_join p) (filter (\<lambda>item. isdir fs (os_path_join p item)) items)"
proof (induction items arbitrary: w t)
  case Nil
  show ?case by (simp add: task_simps)
next
  case (Cons item items)
  show ?case
  proof (cases "isdir fs (os_path_join p item)")
    case False
    then show ?thesis using Cons.IH by (simp add: Let_def)
  next
    case True
    then show ?thesis
      using Cons.IH ok by (simp add: task_simps deployed_append)
  qed
qed

text \<open>
  When every deploy succeeds, \<open>_run_task\<close> deploys the entries of the sorted listing that
  are directories, in that order.
\<close>

lemma deploy_all_visits_sorted_directories:
  assumes "isdir fs (os_path_join (getcwd fs) (opt_path opts))"
    and "listdir fs (os_path_join (getcwd fs) (opt_path opts)) = Inr D"
    and "\<And>q w. fst (deploy_bundle q w) = Inr ()"
  shows "deployed (snd (snd (DeployBundles_run_task fs deploy_bundle opts (w, t)))) =
           deployed t
             @ map (os_path_join (os_path_join (getcwd fs) (opt_path opts)))
                 (filter (\<lambda>item. isdir fs
                     (os_path_join (os_path_join (getcwd fs) (opt_path opts)) item)) (sort D))"
  using assms(1,2) deploy_items_deployed [of deploy_bundle, OF assms(3)]
  by (simp add: DeployBundles_run_task_def task_simps deployed_append)

text \<open>
  Claim C2 says that \<open>_run_task\<close> and \<open>freeze\<close> enumerate the same entries in the same
  order. \<open>_run_task\<close> skips an entry that is not a directory; \<open>freeze\<close> has no such test
  and gives every entry a step and a number. On the sample project, whose bundle root
  lists the directory \<open>pre\<close> and the file \<open>README.md\<close>, \<open>_run_task\<close> deploys one bundle
  while \<open>freeze\<close> returns two steps, the first of them for the file.
\<close>

theorem freeze_numbers_file_deploy_all_skips_it:
  "deployed (snd (snd (DeployBundles_run_task sample_fs deploy_ok
       \<lparr> opt_path = ''unpackaged'' \<rparr> ([], [])))) = [''/repo/unpackaged/pre'']
   \<and> map_sum id (map (\<lambda>s. (s_step_num s, s_name s)))
       (fst (freeze sample_json_str sample_fs sample_project \<lparr> opt_path = ''unpackaged'' \<rparr>
          sample_parent ([]::string list, [])))
      = Inr [(''1.1'', ''Deploy unpackaged/README.md''), (''1.2'', ''Deploy unpackaged/pre'')]"
proof -
  have j: "os_path_join ''/repo'' ''unpackaged'' = ''/repo/unpackaged''"
      "os_path_join ''/repo/unpackaged'' ''README.md'' = ''/repo/unpackaged/README.md''"
      "os_path_join ''/repo/unpackaged'' ''pre'' = ''/repo/unpackaged/pre''"
    by (simp_all add: os_path_join_def)
  have "deployed (snd (snd (DeployBundles_run_task sample_fs deploy_ok
       \<lparr> opt_path = ''unpackaged'' \<rparr> ([], [])))) = [''/repo/unpackaged/pre'']"
    by (simp add: DeployBundles_run_task_def sample_fs_def deploy_ok_def task_simps j)
  moreover have "map_sum id (map (\<lambda>s. (s_step_num s, s_name s)))
       (fst (freeze sample_json_str sample_fs sample_project \<lparr> opt_path = ''unpackaged'' \<rparr>
          sample_parent ([]::string list, [])))
      = Inr [(''1.1'', ''Deploy unpackaged/README.md''), (''1.2'', ''Deploy unpackaged/pre'')]"
    by (simp add: freeze_def sample_fs_def task_simps freeze_step_def sample_parent_def
        os_path_basename_def str_nat_small)
  ultimately show ?thesis by simp
qed

subsection \<open>UploadProfilePhoto: a missing photo\<close>

lemma insert_content_document_missing_file:
  assumes "\<not> path_exists env (opt_photo opts)"
  shows "insert_content_document env sf opts =
           raise (CumulusCIException
             (Some (''No photo found at path: '' @ path_str env (opt_photo opts))))"
  using assms by (simp add: insert_content_document_def Let_def)

lemma bnd_raise: "bnd (raise e) f = raise e"
  by (simp add: bnd_def raise_def)

text \<open>
  Claim C3. When the photo path does not exist, the upload for a resolved user fails with
  the exception whose message is \<open>No photo found at path: ...\<close>; the platform state and
  the event list are unchanged, so no query, create, link or delete reaches the client.
\<close>

theorem upload_photo_missing_file:
  assumes "\<not> path_exists env (opt_photo opts)"
  shows "upload_photo env sf opts user_id (w, t) =
           (Inl (CumulusCIException
                   (Some (''No photo found at path: '' @ path_str env (opt_photo opts)))),
            w, t)"
  using assms
  by (simp add: upload_photo_def insert_content_document_missing_file bnd_raise raise_apply)

theorem upload_photo_missing_file_witness:
  "upload_photo sample_env sample_sf \<lparr> opt_photo = ''nothing.png'', opt_where = None \<rparr>
     ''005A'' ([], []) =
   (Inl (CumulusCIException (Some ''No photo found at path: nothing.png'')), [], [])"
proof -
  have h: "\<not> path_exists sample_env
             (opt_photo \<lparr> opt_photo = ''nothing.png'', opt_where = None \<rparr>)"
    by (simp add: sample_env_def)
  show ?thesis
    using upload_photo_missing_file [OF h, of sample_sf "''005A''" "[]" "[]"]
    by (simp add: sample_env_def)
qed

text \<open>
  In the whole task the user is resolved first, so with a where clause the user query is
  sent before the photo path is looked at; nothing is sent after it.
\<close>

lemma run_task_missing_file:
  assumes "\<not> path_exists env (opt_photo opts)" and "opt_where opts = Some w" and "w \<noteq> []"
  shows "UploadProfilePhoto_run_task env sf opts =
           bnd (get_user_id_by_query sf w) (\<lambda>user_id.
             raise (CumulusCIException
               (Some (''No photo found at path: '' @ path_str env (opt_photo opts)))))"
proof -
  have "upload_photo env sf opts = (\<lambda>user_id.
          raise (CumulusCIException
            (Some (''No photo found at path: '' @ path_str env (opt_photo opts)))))"
    using assms(1)
    by (intro ext) (simp add: upload_photo_def insert_content_document_missing_file bnd_raise)
  then show ?thesis
    using assms(2,3) by (simp add: UploadProfilePhoto_run_task_def)
qed

subsection \<open>UploadProfilePhoto: cleanup after a rejected link\<close>

lemma platform_calls_append:
  "platform_calls (xs @ ys) = platform_calls xs @ platform_calls ys"
  by (simp add: platform_calls_def)

text \<open>
  Claim C1. Take a run of the upload in which the file is read, the content version is
  created with success and its content document \<open>doc\<close> is found. If the photo link call
  is rejected with \<open>SalesforceMalformedRequest\<close>, the calls that reach the platform are
  the create, the document query, the link and then exactly one delete of \<open>doc\<close>, and the
  run ends with the wrapped \<open>CumulusCIException\<close> (or, by the rules of Python, with the
  exception of the delete itself, should the delete fail). If the link call succeeds, the
  calls are the create, the document query and the link, with no delete, and the run
  returns normally.
\<close>

theorem upload_photo_cleanup:
  assumes "path_exists env (opt_photo opts)"
    and "read_b64 env (opt_photo opts) = Inr data"
    and "ContentVersion_create sf
           \<lparr> PathOnClient = path_name env (opt_photo opts),
             Title = path_stem env (opt_photo opts), VersionData = data \<rparr> w
         = (Inr result, w1)"
    and "success result"
    and "sf_query sf (''SELECT Id, ContentDocumentId FROM ContentVersion WHERE Id = ''
           @ [CHR 0x27] @ result_id result @ [CHR 0x27]) w1
         = (Inr (\<lparr> ContentDocumentId = doc \<rparr> # rows), w2)"
    and \<open>sf_restful sf (''connect/user-profiles/'' @ user_id @ ''/photo'')
           (Some (''{"fileId": '' @ json_dumps_str env doc @ ''}'')) ''POST'' w2
         = (linked, w3)\<close>
    and "ContentDocument_delete sf doc w3 = (deleted, w4)"
  shows \<open>(\<forall>e. linked = Inl (SalesforceMalformedRequest e) \<longrightarrow>
            fst (upload_photo env sf opts user_id (w, t))
              = (case deleted of
                   Inl x \<Rightarrow> Inl x
                 | Inr u \<Rightarrow> Inl (CumulusCIException (join_errors e)))
          \<and> fst (snd (upload_photo env sf opts user_id (w, t))) = w4
          \<and> platform_calls (snd (snd (upload_photo env sf opts user_id (w, t))))
              = platform_calls t
                @ [Create \<lparr> PathOnClient = path_name env (opt_photo opts),
                            Title = path_stem env (opt_photo opts), VersionData = data \<rparr>,
                   Query (''SELECT Id, ContentDocumentId FROM ContentVersion WHERE Id = ''
                     @ [CHR 0x27] @ result_id result @ [CHR 0x27]),
                   Restful (''connect/user-profiles/'' @ user_id @ ''/photo'')
                     (Some (''{"fileId": '' @ json_dumps_str env doc @ ''}'')) ''POST'',
                   Delete doc])
       \<and> (\<forall>response. linked = Inr response \<longrightarrow>
            fst (upload_photo env sf opts user_id (w, t)) = Inr ()
          \<and> fst (snd (upload_photo env sf opts user_id (w, t))) = w3
          \<and> platform_calls (snd (snd (upload_photo env sf opts user_id (w, t))))
              = platform_calls t
                @ [Create \<lparr> PathOnClient = path_name env (opt_photo opts),
                            Title = path_stem env (opt_photo opts), VersionData = data \<rparr>,
                   Query (''SELECT Id, ContentDocumentId FROM ContentVersion WHERE Id = ''
                     @ [CHR 0x27] @ result_id result @ [CHR 0x27]),
                   Restful (''connect/user-profiles/'' @ user_id @ ''/photo'')
                     (Some (''{"fileId": '' @ json_dumps_str env doc @ ''}'')) ''POST''])\<close>
  using assms
  by (simp add: upload_photo_def insert_content_document_def task_simps
      except_malformed_apply delete_content_document_def raise_cumulusci_exception_def
      platform_calls_append platform_calls_def [of "[_]"] platform_calls_def [of "_ # _"]
      split: sum.splits)

theorem upload_photo_cleanup_witness:
  \<open>fst (upload_photo sample_env sample_sf \<lparr> opt_photo = ''photo.png'', opt_where = None \<rparr>
          ''005A'' ([], []))
     = Inl (CumulusCIException None)
   \<and> fst (snd (upload_photo sample_env sample_sf
          \<lparr> opt_photo = ''photo.png'', opt_where = None \<rparr> ''005A'' ([], []))) = []
   \<and> platform_calls (snd (snd (upload_photo sample_env sample_sf
          \<lparr> opt_photo = ''photo.png'', opt_where = None \<rparr> ''005A'' ([], []))))
     = [Create \<lparr> PathOnClient = ''photo.png'', Title = ''photo'', VersionData = ''iVBORw=='' \<rparr>,
        Query (''SELECT Id, ContentDocumentId FROM ContentVersion WHERE Id = ''
          @ [CHR 0x27] @ ''068V'' @ [CHR 0x27]),
        Restful ''connect/user-profiles/005A/photo'' (Some ''{"fileId": "069D"}'') ''POST'',
        Delete ''069D'']\<close>
proof -
  let ?opts = "\<lparr> opt_photo = ''photo.png'', opt_where = None \<rparr>"
  have h1: "path_exists sample_env (opt_photo ?opts)"
    by (simp add: sample_env_def)
  have h2: "read_b64 sample_env (opt_photo ?opts) = Inr ''iVBORw==''"
    by (simp add: sample_env_def)
  have h3: "ContentVersion_create sample_sf
           \<lparr> PathOnClient = path_name sample_env (opt_photo ?opts),
             Title = path_stem sample_env (opt_photo ?opts), VersionData = ''iVBORw=='' \<rparr> []
         = (Inr \<lparr> success = True, result_id = ''068V'', errors = ''[]'' \<rparr>, [''069D''])"
    by (simp add: sample_sf_def)
  have h4: "success \<lparr> success = True, result_id = ''068V'', errors = ''[]'' \<rparr>"
    by simp
  have h5: "sf_query sample_sf (''SELECT Id, ContentDocumentId FROM ContentVersion WHERE Id = ''
           @ [CHR 0x27] @ result_id \<lparr> success = True, result_id = ''068V'', errors = ''[]'' \<rparr>
           @ [CHR 0x27]) [''069D'']
         = (Inr (\<lparr> ContentDocumentId = ''069D'' \<rparr> # []), [''069D''])"
    by (simp add: sample_sf_def)
  have h6: \<open>sf_restful sample_sf (''connect/user-profiles/'' @ ''005A'' @ ''/photo'')
           (Some (''{"fileId": '' @ json_dumps_str sample_env ''069D'' @ ''}'')) ''POST'' [''069D'']
         = (Inl (SalesforceMalformedRequest [ [(''message'', ''bad file'')] ]), [''069D''])\<close>
    by (simp add: sample_sf_def)
  have h7: "ContentDocument_delete sample_sf ''069D'' [''069D''] = (Inr (), [])"
    by (simp add: sample_sf_def)
  show ?thesis
    using upload_photo_cleanup [OF h1 h2 h3 h4 h5 h6 h7, of "[]"]
    by (simp add: sample_env_def sample_json_str_def join_errors_def platform_calls_def)
qed

subsection \<open>UploadProfilePhoto: the wrapped error message\<close>

text \<open>
  Claim C4 says that the wrapped error carries every message of the platform error,
  joined by \<open>"; "\<close>. \<open>join_errors\<close> builds that string and drops it: it returns \<open>None\<close>
  for every platform error, so the exception that \<open>_raise_cumulusci_exception\<close> raises
  carries \<open>None\<close>. For a platform error with the messages \<open>first\<close> and \<open>second\<close> the
  joined string would be \<open>first; second\<close>.
\<close>

theorem join_errors_returns_none:
  "join ''; '' (error_messages [ [(''message'', ''first'')], [(''message'', ''second'')] ])
     = ''first; second''
   \<and> join_errors [ [(''message'', ''first'')], [(''message'', ''second'')] ] = None
   \<and> raise_cumulusci_exception [ [(''message'', ''first'')], [(''message'', ''second'')] ]
       (w, t) = (Inl (CumulusCIException None), w, t)"
  by (simp add: error_messages_def join_errors_def raise_cumulusci_exception_def raise_apply)

lemma raise_cumulusci_exception_none:
  "raise_cumulusci_exception content = raise (CumulusCIException None)"
  by (simp add: raise_cumulusci_exception_def join_errors_def)

subsection \<open>UploadProfilePhoto: the default user\<close>

text \<open>
  \<open>get_default_user_id\<close> asks the identity endpoint once and returns the last 18
  characters of the identity reference.
\<close>

lemma get_default_user_id_last_18:
  assumes "sf_restful sf [] None ''GET'' w = (Inr response, w')"
    and "map_of response ''identity'' = Some identity"
  shows "get_default_user_id sf (w, t) =
           (Inr (drop (length identity - 18) identity), w',
            t @ [Restful [] None ''GET'',
                 LogInfo (''Uploading profile photo for the default User with ID ''
                   @ drop (length identity - 18) identity)])"
  using assms by (simp add: get_default_user_id_def task_simps)

text \<open>
  Claim C5 says that a run with no where clause resolves the user from the identity
  endpoint. \<open>_run_task\<close> does not call \<open>get_default_user_id\<close>: it calls
  \<open>_get_default_user_id\<close>, which the class does not define, so the run ends with an
  \<open>AttributeError\<close> before any call reaches the platform, whether the option is absent
  or empty.
\<close>

theorem run_task_without_where_fails:
  "UploadProfilePhoto_run_task env sf \<lparr> opt_photo = photo, opt_where = None \<rparr> (w, t)
     = (Inl (AttributeError
              ''UploadProfilePhoto object has no attribute _get_default_user_id''), w, t)
   \<and> UploadProfilePhoto_run_task env sf \<lparr> opt_photo = photo, opt_where = Some [] \<rparr> (w, t)
     = (Inl (AttributeError
              ''UploadProfilePhoto object has no attribute _get_default_user_id''), w, t)"
  by (simp add: UploadProfilePhoto_run_task_def underscore_get_default_user_id_def
      bnd_raise raise_apply)

subsection \<open>UploadProfilePhoto: the rows of the user query\<close>

lemma sublist_prepend:
  assumes "sublist x ys"
  shows "sublist x (ps @ ys)"
proof -
  from assms obtain a b where "ys = a @ x @ b"
    by (auto simp: sublist_def)
  then have "ps @ ys = (ps @ a) @ x @ b"
    by simp
  then show ?thesis
    unfolding sublist_def by blast
qed

lemma sublist_join:
  assumes "x \<in> set xs"
  shows "sublist x (join sep xs)"
  using assms
proof (induction sep xs rule: join.induct)
  case (1 sep)
  then show ?case by simp
next
  case (2 sep y)
  then show ?case by simp
next
  case (3 sep y z zs)
  show ?case
  proof (cases "x = y")
    case True
    then show ?thesis
      by simp
  next
    case False
    with 3 have "sublist x (join sep (z # zs))"
      by simp
    then have "sublist x ((y @ sep) @ join sep (z # zs))"
      by (rule sublist_prepend)
    then show ?thesis
      by simp
  qed
qed

text \<open>
  Claim C6. When the user query returns rows: with no row the resolution fails with the
  exception \<open>No Users found.\<close>; with more than one row it fails with an exception whose
  message holds the number of rows and the identifiers joined by commas, so every matched
  identifier occurs in it; with exactly one row it returns the identifier of that row.
\<close>

theorem get_user_id_by_query_rows:
  assumes "sf_query_all sf (''SELECT Id FROM User WHERE '' @ re_sub_where wh) w
             = (Inr rows, w')"
  shows "(rows = [] \<longrightarrow>
            fst (get_user_id_by_query sf wh (w, t))
              = Inl (CumulusCIException (Some ''No Users found.'')))
       \<and> (1 < length rows \<longrightarrow>
            fst (get_user_id_by_query sf wh (w, t))
              = Inl (CumulusCIException (Some (''More than one User found (''
                  @ str_nat (length rows) @ ''): '' @ join '', '' (map user_Id rows))))
          \<and> (\<forall>r \<in> set rows.
                sublist (user_Id r) (''More than one User found (''
                  @ str_nat (length rows) @ ''): '' @ join '', '' (map user_Id rows))))
       \<and> (\<forall>r. rows = [r] \<longrightarrow> fst (get_user_id_by_query sf wh (w, t)) = Inr (user_Id r))"
proof -
  have "sublist (user_Id r) (pre @ join '', '' (map user_Id rows))"
    if "r \<in> set rows" for r pre
  proof -
    from that have "user_Id r \<in> set (map user_Id rows)"
      by simp
    then have "sublist (user_Id r) (join '', '' (map user_Id rows))"
      by (rule sublist_join)
    then show ?thesis
      by (rule sublist_prepend)
  qed
  note inside = this [of _ "''More than one User found ('' @ str_nat (length rows) @ ''): ''"]
  show ?thesis
    using assms inside
    by (simp add: get_user_id_by_query_def task_simps except_malformed_apply)
qed

theorem get_user_id_by_query_rows_witness:
  "fst (get_user_id_by_query sample_sf ''WHERE IsActive = true'' ([], []))
     = Inl (CumulusCIException (Some ''More than one User found (2): 005A, 005B''))
   \<and> sublist ''005A'' ''More than one User found (2): 005A, 005B''
   \<and> sublist ''005B'' ''More than one User found (2): 005A, 005B''"
proof -
  have h: "sf_query_all sample_sf
             (''SELECT Id FROM User WHERE '' @ re_sub_where ''WHERE IsActive = true'') []
           = (Inr [\<lparr> user_Id = ''005A'' \<rparr>, \<lparr> user_Id = ''005B'' \<rparr>], [])"
    by (simp add: sample_sf_def)
  show ?thesis
    using get_user_id_by_query_rows [OF h, of "[]"]
    by (simp add: str_nat_small)
qed

subsection \<open>UploadProfilePhoto: the query built from filters\<close>

lemma user_fields_lookup:
  "foldl (\<lambda>user_fields fld. user_fields(f_name fld \<mapsto> fld)) m flds n =
     (case lookup_field flds n of None \<Rightarrow> m n | Some fld \<Rightarrow> Some fld)"
proof (induction flds rule: rev_induct)
  case Nil
  show ?case by (simp add: lookup_field_def)
next
  case (snoc fld flds)
  then show ?case by (simp add: lookup_field_def)
qed

lemma get_user_fields_lookup:
  assumes "User_describe sf w = (Inr flds, w')"
  shows "get_user_fields sf (w, t) = (Inr (lookup_field flds), w', t @ [Describe])"
proof -
  have "foldl (\<lambda>user_fields fld. user_fields(f_name fld \<mapsto> fld)) Map.empty flds
          = lookup_field flds"
    by (rule ext) (simp add: user_fields_lookup split: option.splits)
  with assms show ?thesis
    by (simp add: get_user_fields_def task_simps)
qed

lemma get_query_filters_usable:
  assumes "list_all (\<lambda>(n, v). field_usable flds n) filters"
  shows "get_query_filters (lookup_field flds) filters acc
           = Inr (acc @ map (render_filter flds) filters)"
  using assms
proof (induction filters arbitrary: acc)
  case Nil
  show ?case by simp
next
  case (Cons nv filters)
  obtain n v where nv: "nv = (n, v)"
    by (cases nv)
  with Cons.prems obtain fld where f: "lookup_field flds n = Some fld" "filterable fld"
    by (auto simp: field_usable_def split: option.splits)
  from Cons.prems have rest: "list_all (\<lambda>(n, v). field_usable flds n) filters"
    by simp
  show ?case
    using nv f Cons.IH [OF rest]
    by (simp add: render_filter_def string_soap_types_def)
qed

lemma get_query_filters_unusable:
  assumes "\<not> list_all (\<lambda>(n, v). field_usable flds n) filters"
  shows "\<exists>msg. get_query_filters (lookup_field flds) filters acc
           = Inl (CumulusCIException (Some msg))"
  using assms
proof (induction filters arbitrary: acc)
  case Nil
  then show ?case by simp
next
  case (Cons nv filters)
  obtain n v where nv: "nv = (n, v)"
    by (cases nv)
  show ?case
  proof (cases "field_usable flds n")
    case False
    with nv show ?thesis
      by (auto simp: field_usable_def split: option.splits)
  next
    case True
    with nv Cons.prems have "\<not> list_all (\<lambda>(n, v). field_usable flds n) filters"
      by simp
    from Cons.IH [OF this] True nv show ?thesis
      by (auto simp: field_usable_def split: option.splits)
  qed
qed

text \<open>
  Claim C7. With the fields that the describe call returns: when every filter names a
  field that is in the schema (by exact comparison of the name) and filterable, the query
  is \<open>SELECT Id FROM User WHERE\<close> and the filters joined by \<open>AND\<close>, each rendered as
  \<open>name = 'value'\<close> for the soap types \<open>xsd:string\<close>, \<open>tns:ID\<close> and \<open>urn:address\<close>
  and as \<open>name = value\<close> for every other type; when some filter names a field that is
  missing or not filterable, the result is a \<open>CumulusCIException\<close> and no query.
\<close>

theorem get_query_conjunction:
  assumes "User_describe sf w = (Inr flds, w')"
  shows "(list_all (\<lambda>(n, v). field_usable flds n) filters \<longrightarrow>
            get_query sf filters (w, t)
              = (Inr (''SELECT Id FROM User WHERE ''
                   @ join '' AND '' (map (render_filter flds) filters)), w', t @ [Describe]))
       \<and> (\<not> list_all (\<lambda>(n, v). field_usable flds n) filters \<longrightarrow>
            (\<exists>msg. get_query sf filters (w, t)
              = (Inl (CumulusCIException (Some msg)), w', t @ [Describe])))"
proof (cases "list_all (\<lambda>(n, v). field_usable flds n) filters")
  case True
  then show ?thesis
    using get_query_filters_usable [OF True, of "[]"] get_user_fields_lookup [OF assms]
    by (simp add: get_query_def task_simps)
next
  case False
  from get_query_filters_unusable [OF False, of "[]"] obtain msg where
    "get_query_filters (lookup_field flds) filters [] = Inl (CumulusCIException (Some msg))"
    by blast
  with False show ?thesis
    using get_user_fields_lookup [OF assms]
    by (simp add: get_query_def task_simps)
qed

theorem get_query_conjunction_witness:
  "get_query sample_sf [(''Alias'', ''grace''), (''IsActive'', ''true'')] ([], [])
     = (Inr ''SELECT Id FROM User WHERE Alias = 'grace' AND IsActive = true'', [], [Describe])
   \<and> (\<exists>msg. get_query sample_sf [(''Alias'', ''grace''), (''AboutMe'', ''x'')] ([], [])
         = (Inl (CumulusCIException (Some msg)), [], [Describe]))
   \<and> (\<exists>msg. get_query sample_sf [(''alias'', ''grace'')] ([], [])
         = (Inl (CumulusCIException (Some msg)), [], [Describe]))"
proof -
  have h: "User_describe sample_sf [] = (Inr sample_fields, [])"
    by (simp add: sample_sf_def)
  have l: "lookup_field sample_fields ''Alias''
             = Some \<lparr> f_name = ''Alias'', filterable = True, soapType = ''xsd:string'' \<rparr>"
    "lookup_field sample_fields ''IsActive''
             = Some \<lparr> f_name = ''IsActive'', filterable = True, soapType = ''xsd:boolean'' \<rparr>"
    "lookup_field sample_fields ''AboutMe''
             = Some \<lparr> f_name = ''AboutMe'', filterable = False, soapType = ''xsd:string'' \<rparr>"
    "lookup_field sample_fields ''alias'' = None"
    by (simp_all add: lookup_field_def sample_fields_def)
  show ?thesis
    using get_query_conjunction [OF h, of "[(''Alias'', ''grace''), (''IsActive'', ''true'')]" "[]"]
      get_query_conjunction [OF h, of "[(''Alias'', ''grace''), (''AboutMe'', ''x'')]" "[]"]
      get_query_conjunction [OF h, of "[(''alias'', ''grace'')]" "[]"]
    by (simp add: field_usable_def render_filter_def l)
qed

subsection \<open>UploadProfilePhoto: the where clause\<close>

lemma lower_where:
  "lower CHR ''W'' = CHR ''w''" "lower CHR ''H'' = CHR ''h''" "lower CHR ''E'' = CHR ''e''"
  "lower CHR ''R'' = CHR ''r''" "lower CHR '' '' = CHR '' ''"
  by code_simp+

lemma lower_space: "lower c = CHR '' '' \<longleftrightarrow> c = CHR '' ''"
proof -
  have "of_char (lower c) = (32::nat) \<longleftrightarrow> of_char c = (32::nat)"
    unfolding lower_def less_eq_char_def by (auto simp: of_char_of)
  moreover have "of_char (CHR '' '') = (32::nat)"
    by simp
  ultimately show ?thesis
    by (metis of_char_eq_iff)
qed

text \<open>The regular expression does what the words say.\<close>

lemma re_sub_where_strip: "re_sub_where wh = strip_leading_where wh"
proof -
  have sp: "CHR '' '' = lower c \<longleftrightarrow> c = CHR '' ''" for c
    using lower_space [of c] by auto
  show ?thesis
  proof (cases "length wh \<le> 5")
    case True
    then consider "wh = []" | a where "wh = [a]" | a b where "wh = [a, b]"
      | a b c where "wh = [a, b, c]" | a b c d where "wh = [a, b, c, d]"
      | a b c d e where "wh = [a, b, c, d, e]"
      by (auto simp: le_Suc_eq length_Suc_conv numeral_eq_Suc)
    then show ?thesis
      by cases
        (auto simp: re_sub_where_def strip_leading_where_def where_pattern_def lower_where)
  next
    case False
    then obtain a b c d e f rest where "wh = a # b # c # d # e # f # rest"
      by (cases wh; simp; rename_tac w1; case_tac w1; simp; rename_tac w2; case_tac w2; simp;
          rename_tac w3; case_tac w3; simp; rename_tac w4; case_tac w4; simp;
          rename_tac w5; case_tac w5; simp)
    then show ?thesis
      by (auto simp: re_sub_where_def strip_leading_where_def where_pattern_def lower_where sp)
  qed
qed

text \<open>
  Claim C10. With a non-empty where option \<open>wh\<close> the task resolves the user by
  \<open>_get_user_id_by_query\<close>, and the only call of that resolution that reaches the
  platform is \<open>query_all\<close> with \<open>SELECT Id FROM User WHERE\<close> followed by \<open>wh\<close> without
  one leading \<open>WHERE\<close> (in any case, with one space after it if there is one). This holds
  for every \<open>wh\<close>: the schema is not described and nothing in \<open>wh\<close> is checked.
\<close>

theorem where_clause_embedded:
  assumes "opt_where opts = Some wh" and "wh \<noteq> []"
  shows "UploadProfilePhoto_run_task env sf opts
           = bnd (get_user_id_by_query sf wh) (upload_photo env sf opts)
       \<and> platform_calls (snd (snd (get_user_id_by_query sf wh (w, t))))
           = platform_calls t
               @ [QueryAll (''SELECT Id FROM User WHERE '' @ strip_leading_where wh)]"
proof -
  have "platform_calls (snd (snd (get_user_id_by_query sf wh (w, t))))
          = platform_calls t @ [QueryAll (''SELECT Id FROM User WHERE '' @ re_sub_where wh)]"
    by (cases "fst (sf_query_all sf (''SELECT Id FROM User WHERE '' @ re_sub_where wh) w)")
      (auto simp: get_user_id_by_query_def task_simps except_malformed_apply
        raise_cumulusci_exception_none platform_calls_def split: exn.splits)
  then show ?thesis
    using assms by (simp add: UploadProfilePhoto_run_task_def re_sub_where_strip)
qed

theorem where_clause_embedded_witness:
  "UploadProfilePhoto_run_task sample_env sample_sf
     \<lparr> opt_photo = ''photo.png'', opt_where = Some ''where IsActive = true'' \<rparr>
     = bnd (get_user_id_by_query sample_sf ''where IsActive = true'')
         (upload_photo sample_env sample_sf
            \<lparr> opt_photo = ''photo.png'', opt_where = Some ''where IsActive = true'' \<rparr>)
   \<and> platform_calls (snd (snd (get_user_id_by_query sample_sf ''where IsActive = true''
         ([], []))))
     = [QueryAll ''SELECT Id FROM User WHERE IsActive = true'']"
proof -
  have h1: "opt_where \<lparr> opt_photo = ''photo.png'', opt_where = Some ''where IsActive = true'' \<rparr>
              = Some ''where IsActive = true''"
    by simp
  have h2: "''where IsActive = true'' \<noteq> []"
    by simp
  have s: "strip_leading_where ''where IsActive = true'' = ''IsActive = true''"
    by code_simp
  show ?thesis
    using where_clause_embedded [OF h1 h2, of sample_env sample_sf "[]" "[]"]
    by (simp add: s platform_calls_def)
qed

end
